theory Spec2Isabelle
  imports Main
begin

section \<open>The OCN Registry contract wrapper (src/src/registry.ts)\<close>

text \<open>
  The class \<^verbatim>\<open>Registry\<close> wraps a deployed registry contract. Every public method is
  \<^verbatim>\<open>async\<close>: it runs its checks, then awaits calls on the contract object.
  The model makes the two things a method does explicit: the value it resolves to or the
  error it rejects with (a sum, \<open>Inl\<close> the error), and the list of calls it made on the
  remote contract, in order. A method that made no call has the empty list.
\<close>

subsection \<open>Strings\<close>

text \<open>
  A JavaScript string is a sequence of code units and \<^verbatim>\<open>str.length\<close> counts them;
  the model's \<open>string\<close> has one \<open>char\<close> per code unit, so \<open>length\<close> is
  \<^verbatim>\<open>str.length\<close>. \<^verbatim>\<open>String.prototype.toUpperCase\<close> is modelled on ASCII, where it
  maps \<^verbatim>\<open>a\<close>..\<^verbatim>\<open>z\<close> to \<^verbatim>\<open>A\<close>..\<^verbatim>\<open>Z\<close> and leaves every other code unit as it is
  (its case mapping beyond ASCII is not modelled).
\<close>

definition toUpperCase_unit :: "char \<Rightarrow> char" where
  "toUpperCase_unit c =
     (case map_of (zip ''abcdefghijklmnopqrstuvwxyz'' ''ABCDEFGHIJKLMNOPQRSTUVWXYZ'') c of
        Some u \<Rightarrow> u
      | None \<Rightarrow> c)"

definition toUpperCase :: "string \<Rightarrow> string" where
  "toUpperCase str = map toUpperCase_unit str"

subsection \<open>Data model\<close>

type_synonym address = string
type_synonym private_key = string
type_synonym tx = string

text \<open>\<^verbatim>\<open>types.Role\<close> and \<^verbatim>\<open>types.Module\<close> are numeric enums: a value is its index.\<close>

type_synonym Role = nat
type_synonym Module = nat

text \<open>\<^verbatim>\<open>public mode: "r" | "r+w"\<close>\<close>

datatype mode = R | RW

text \<open>\<^verbatim>\<open>types.Node\<close>: \<^verbatim>\<open>{ operator, url }\<close>\<close>

record Node =
  node_operator :: address
  node_url :: string

record Modules =
  mod_sender :: "string option list"
  mod_receiver :: "string option list"

text \<open>
  \<^verbatim>\<open>types.PartyDetails\<close>, as \<^verbatim>\<open>toPartyDetails\<close> builds it. A role or module name is
  \<open>None\<close> where the enum has no member of that index (\<^verbatim>\<open>types.Role[index]\<close> is
  \<^verbatim>\<open>undefined\<close>).
\<close>

record PartyDetails =
  pd_countryCode :: string
  pd_partyId :: string
  pd_address :: address
  pd_roles :: "string option list"
  pd_modules :: Modules
  pd_node :: Node

text \<open>The signature object of \<^verbatim>\<open>lib/sign\<close>: \<^verbatim>\<open>sig.v\<close>, \<^verbatim>\<open>sig.r\<close>, \<^verbatim>\<open>sig.s\<close>.\<close>

record signature =
  sig_v :: nat
  sig_r :: string
  sig_s :: string

text \<open>\<^verbatim>\<open>ethers.Wallet\<close>: the private key it was built from and \<^verbatim>\<open>wallet.address\<close>.\<close>

record Wallet =
  wallet_privateKey :: private_key
  wallet_address :: address

text \<open>An entry of \<^verbatim>\<open>networks\<close>: the provider's protocol, host and port, the contract's address.\<close>

record network =
  net_protocol :: string
  net_host :: string
  net_port :: string
  net_contract :: address

text \<open>The fields of the class: \<^verbatim>\<open>provider\<close> (its url), \<^verbatim>\<open>wallet?\<close>, \<^verbatim>\<open>mode\<close>.\<close>

record Registry =
  provider :: string
  wallet :: "Wallet option"
  contract_address :: address
  mode :: mode

subsection \<open>Errors\<close>

text \<open>
  Each \<^verbatim>\<open>throw\<close> of the source is a constructor:
  \<^item> \<open>NetworkNotFound environment\<close>: \<^verbatim>\<open>Option "..." not found in configured networks.\<close>
  \<^item> \<open>NoSigner\<close>: \<^verbatim>\<open>No signer provided. Unable to send transaction.\<close>
  \<^item> \<open>InvalidStringLength len str n\<close>: \<^verbatim>\<open>Invalid string length. Wanted len, got "str" (n)\<close>
  \<^item> \<open>InvalidAddress address\<close>: \<^verbatim>\<open>Invalid address. Expected Ethereum address, got "..."\<close>
  \<^item> \<open>LibraryFailure\<close>: an exception of a library call that the source does not catch
    (\<^verbatim>\<open>new URL\<close>, \<^verbatim>\<open>new ethers.Wallet\<close>, \<^verbatim>\<open>toHex\<close>, \<^verbatim>\<open>toUtf8String\<close>, \<^verbatim>\<open>lib/sign\<close>);
  \<^item> \<open>TransportFailure\<close>: a rejected call on the contract object.
\<close>

datatype error =
    NetworkNotFound string
  | NoSigner
  | InvalidStringLength nat string nat
  | InvalidAddress string
  | LibraryFailure string
  | TransportFailure string

subsection \<open>The libraries the class calls\<close>

text \<open>
  The imported functions are parameters of the model. \<open>None\<close> or \<open>Inl\<close> is the call
  throwing.
  \<^item> \<open>networks\<close>: the table of \<^verbatim>\<open>./networks\<close>;
  \<^item> \<open>getAddress\<close>: \<^verbatim>\<open>ethers.utils.getAddress\<close>;
  \<^item> \<open>toUtf8String\<close>: \<^verbatim>\<open>ethers.utils.toUtf8String\<close>;
  \<^item> \<open>computeAddress\<close>: the address \<^verbatim>\<open>new ethers.Wallet(key)\<close> derives from a key;
  \<^item> \<open>web3_toHex\<close>: \<^verbatim>\<open>toHex\<close> of \<^verbatim>\<open>web3-utils\<close>;
  \<^item> \<open>url_origin\<close>: \<^verbatim>\<open>new URL(domain).origin\<close>;
  \<^item> \<open>Role_name\<close>, \<open>Module_name\<close>: the reverse mappings \<^verbatim>\<open>types.Role[index]\<close>,
    \<^verbatim>\<open>types.Module[index]\<close>;
  \<^item> \<open>sign_...\<close>: the functions of \<^verbatim>\<open>./lib/sign\<close>, which sign with a wallet that has
    no provider.
\<close>

record libs =
  networks :: "string \<Rightarrow> network option"
  getAddress :: "string \<Rightarrow> address option"
  toUtf8String :: "string \<Rightarrow> string option"
  computeAddress :: "private_key \<Rightarrow> address option"
  web3_toHex :: "string \<Rightarrow> string option"
  url_origin :: "string \<Rightarrow> string option"
  Role_name :: "nat \<Rightarrow> string option"
  Module_name :: "nat \<Rightarrow> string option"
  sign_setNodeRaw :: "string \<Rightarrow> Wallet \<Rightarrow> string + signature"
  sign_deleteNodeRaw :: "Wallet \<Rightarrow> string + signature"
  sign_setPartyRaw :: "string \<Rightarrow> string \<Rightarrow> Role list \<Rightarrow> address \<Rightarrow> Wallet \<Rightarrow> string + signature"
  sign_setPartyModulesRaw :: "Module list \<Rightarrow> Module list \<Rightarrow> Wallet \<Rightarrow> string + signature"
  sign_deletePartyRaw :: "Wallet \<Rightarrow> string + signature"

subsection \<open>The contract object\<close>

text \<open>The methods the class calls on \<^verbatim>\<open>this.registry\<close>, with their arguments.\<close>

datatype contract_call =
    C_getNode address
  | C_getNodeOperators
  | C_getPartyDetailsByAddress address
  | C_getPartyDetailsByOcpi string string
  | C_getParties
  | C_setNode string
  | C_setNodeRaw address string nat string string
  | C_deleteNode
  | C_deleteNodeRaw address nat string string
  | C_setParty string string "Role list" address
  | C_setPartyRaw address string string "Role list" address nat string string
  | C_setPartyModules "Module list" "Module list"
  | C_setPartyModulesRaw address "Module list" "Module list" nat string string
  | C_deleteParty
  | C_deletePartyRaw address nat string string

text \<open>
  A network interaction: a read of the contract, a transaction sent by the wallet the
  contract object is connected to (\<^verbatim>\<open>this.wallet || this.provider\<close>), or
  \<^verbatim>\<open>tx.wait()\<close>.
\<close>

datatype netcall =
    Query contract_call
  | Send "Wallet option" contract_call
  | Wait tx

text \<open>
  What \<^verbatim>\<open>getPartyDetailsByAddress\<close> and \<^verbatim>\<open>getPartyDetailsByOcpi\<close> resolve to. The
  first has no \<^verbatim>\<open>partyAddress\<close> and the second no \<^verbatim>\<open>countryCode\<close> and
  \<^verbatim>\<open>partyId\<close>: the callers supply them through \<^verbatim>\<open>Object.assign\<close>.
\<close>

record details_by_address =
  da_countryCode :: string
  da_partyId :: string
  da_roles :: "nat list"
  da_modulesSender :: "nat list"
  da_modulesReceiver :: "nat list"
  da_operatorAddress :: address
  da_operatorDomain :: string

record details_by_ocpi =
  do_partyAddress :: address
  do_roles :: "nat list"
  do_modulesSender :: "nat list"
  do_modulesReceiver :: "nat list"
  do_operatorAddress :: address
  do_operatorDomain :: string

text \<open>The object \<^verbatim>\<open>toPartyDetails\<close> receives (\<^verbatim>\<open>input: any\<close>).\<close>

record party_input =
  in_countryCode :: string
  in_partyId :: string
  in_partyAddress :: address
  in_roles :: "nat list"
  in_modulesSender :: "nat list"
  in_modulesReceiver :: "nat list"
  in_operatorAddress :: address
  in_operatorDomain :: string

text \<open>
  The remote contract as \<^verbatim>\<open>this.registry\<close> reaches it: what each read resolves to,
  what sending a transaction resolves to, and \<^verbatim>\<open>tx.wait()\<close>. \<open>Inl\<close> is a rejected
  promise.
\<close>

record transport =
  t_getNode :: "address \<Rightarrow> string + string"
  t_getNodeOperators :: "string + address list"
  t_getPartyDetailsByAddress :: "address \<Rightarrow> string + details_by_address"
  t_getPartyDetailsByOcpi :: "string \<Rightarrow> string \<Rightarrow> string + details_by_ocpi"
  t_getParties :: "string + address list"
  t_send :: "Wallet option \<Rightarrow> contract_call \<Rightarrow> string + tx"
  t_wait :: "tx \<Rightarrow> string + unit"

subsection \<open>Outcomes\<close>

type_synonym 'a outcome = "(error + 'a) \<times> netcall list"

definition ret :: "'a \<Rightarrow> 'a outcome" where
  "ret x = (Inr x, [])"

text \<open>A step of the method that runs locally.\<close>

definition sync :: "error + 'a \<Rightarrow> 'a outcome" where
  "sync x = (x, [])"

definition library :: "string + 'a \<Rightarrow> 'a outcome" where
  "library x = (case x of Inl m \<Rightarrow> (Inl (LibraryFailure m), []) | Inr y \<Rightarrow> (Inr y, []))"

text \<open>Sequencing: an error ends the method; the calls made so far stay made.\<close>

definition and_then :: "'a outcome \<Rightarrow> ('a \<Rightarrow> 'b outcome) \<Rightarrow> 'b outcome" where
  "and_then m f =
     (case m of
        (Inl e, t) \<Rightarrow> (Inl e, t)
      | (Inr x, t) \<Rightarrow> (case f x of (y, t') \<Rightarrow> (y, t @ t')))"

text \<open>\<^verbatim>\<open>await this.registry.method(...)\<close> for a read.\<close>

definition query :: "contract_call \<Rightarrow> string + 'a \<Rightarrow> 'a outcome" where
  "query c response =
     (case response of
        Inl m \<Rightarrow> (Inl (TransportFailure m), [Query c])
      | Inr x \<Rightarrow> (Inr x, [Query c]))"

text \<open>\<^verbatim>\<open>await this.registry.method(...)\<close> for a transaction, and \<^verbatim>\<open>await tx.wait()\<close>.\<close>

definition send :: "transport \<Rightarrow> Registry \<Rightarrow> contract_call \<Rightarrow> tx outcome" where
  "send tr reg c =
     (case t_send tr (wallet reg) c of
        Inl m \<Rightarrow> (Inl (TransportFailure m), [Send (wallet reg) c])
      | Inr t \<Rightarrow> (Inr t, [Send (wallet reg) c]))"

definition wait :: "transport \<Rightarrow> tx \<Rightarrow> unit outcome" where
  "wait tr t =
     (case t_wait tr t of
        Inl m \<Rightarrow> (Inl (TransportFailure m), [Wait t])
      | Inr u \<Rightarrow> (Inr u, [Wait t]))"

subsection \<open>The constructor\<close>

text \<open>
  \<^verbatim>\<open>new ethers.Wallet(signer)\<close>: the wallet of a key, or the exception of a malformed key.
\<close>

definition new_Wallet :: "libs \<Rightarrow> private_key \<Rightarrow> Wallet outcome" where
  "new_Wallet env signer =
     (case computeAddress env signer of
        None \<Rightarrow> (Inl (LibraryFailure ''invalid private key''), [])
      | Some a \<Rightarrow> (Inr \<lparr>wallet_privateKey = signer, wallet_address = a\<rparr>, []))"

text \<open>
  \<^verbatim>\<open>constructor(environment: string, signer?: string)\<close>. The test \<^verbatim>\<open>if (signer)\<close> is
  false for a missing signer and for the empty string.
\<close>

definition constructor :: "libs \<Rightarrow> string \<Rightarrow> private_key option \<Rightarrow> error + Registry" where
  "constructor env environment signer =
     (case networks env environment of
        None \<Rightarrow> Inl (NetworkNotFound environment)
      | Some net \<Rightarrow>
          (let url = net_protocol net @ ''://'' @ net_host net @ '':'' @ net_port net in
           case signer of
             None \<Rightarrow>
               Inr \<lparr>provider = url, wallet = None,
                    contract_address = net_contract net, mode = R\<rparr>
           | Some key \<Rightarrow>
               if key \<noteq> [] then
                 (case fst (new_Wallet env key) of
                    Inl e \<Rightarrow> Inl e
                  | Inr w \<Rightarrow>
                      Inr \<lparr>provider = url, wallet = Some w,
                           contract_address = net_contract net, mode = RW\<rparr>)
               else
                 Inr \<lparr>provider = url, wallet = None,
                      contract_address = net_contract net, mode = R\<rparr>))"

subsection \<open>The private methods\<close>

definition verifyStringLen :: "string \<Rightarrow> nat \<Rightarrow> error + unit" where
  "verifyStringLen str len =
     (if length str \<noteq> len then Inl (InvalidStringLength len str (length str)) else Inr ())"

definition verifyAddress :: "libs \<Rightarrow> string \<Rightarrow> error + unit" where
  "verifyAddress env address =
     (case getAddress env address of
        None \<Rightarrow> Inl (InvalidAddress address)
      | Some a \<Rightarrow> Inr ())"

definition verifyWritable :: "Registry \<Rightarrow> error + unit" where
  "verifyWritable reg = (if mode reg \<noteq> RW then Inl NoSigner else Inr ())"

definition toHex :: "libs \<Rightarrow> string \<Rightarrow> string outcome" where
  "toHex env str =
     (case web3_toHex env (toUpperCase str) of
        None \<Rightarrow> (Inl (LibraryFailure ''toHex''), [])
      | Some h \<Rightarrow> (Inr h, []))"

definition toPartyDetails :: "libs \<Rightarrow> party_input \<Rightarrow> error + PartyDetails" where
  "toPartyDetails env input =
     (case toUtf8String env (in_countryCode input) of
        None \<Rightarrow> Inl (LibraryFailure ''toUtf8String'')
      | Some country \<Rightarrow>
          (case toUtf8String env (in_partyId input) of
             None \<Rightarrow> Inl (LibraryFailure ''toUtf8String'')
           | Some ident \<Rightarrow>
               Inr \<lparr>pd_countryCode = country,
                    pd_partyId = ident,
                    pd_address = in_partyAddress input,
                    pd_roles = map (Role_name env) (in_roles input),
                    pd_modules =
                      \<lparr>mod_sender = map (Module_name env) (in_modulesSender input),
                       mod_receiver = map (Module_name env) (in_modulesReceiver input)\<rparr>,
                    pd_node =
                      \<lparr>node_operator = in_operatorAddress input,
                       node_url = in_operatorDomain input\<rparr>\<rparr>))"

text \<open>The two uses of \<^verbatim>\<open>Object.assign\<close>.\<close>

definition assign_partyAddress :: "address \<Rightarrow> details_by_address \<Rightarrow> party_input" where
  "assign_partyAddress a d =
     \<lparr>in_countryCode = da_countryCode d, in_partyId = da_partyId d, in_partyAddress = a,
      in_roles = da_roles d, in_modulesSender = da_modulesSender d,
      in_modulesReceiver = da_modulesReceiver d,
      in_operatorAddress = da_operatorAddress d, in_operatorDomain = da_operatorDomain d\<rparr>"

definition assign_ocpi :: "string \<Rightarrow> string \<Rightarrow> details_by_ocpi \<Rightarrow> party_input" where
  "assign_ocpi country ident d =
     \<lparr>in_countryCode = country, in_partyId = ident, in_partyAddress = do_partyAddress d,
      in_roles = do_roles d, in_modulesSender = do_modulesSender d,
      in_modulesReceiver = do_modulesReceiver d,
      in_operatorAddress = do_operatorAddress d, in_operatorDomain = do_operatorDomain d\<rparr>"

definition zero_address :: address where
  "zero_address = ''0x0000000000000000000000000000000000000000''"

subsection \<open>The read methods\<close>

definition getNode :: "libs \<Rightarrow> transport \<Rightarrow> string \<Rightarrow> string option outcome" where
  "getNode env tr operator =
     and_then (sync (verifyAddress env operator)) (\<lambda>_.
     and_then (query (C_getNode operator) (t_getNode tr operator)) (\<lambda>node.
     ret (if node \<noteq> [] then Some node else None)))"

fun getAllNodes_loop :: "transport \<Rightarrow> address list \<Rightarrow> Node list \<Rightarrow> Node list outcome" where
  "getAllNodes_loop tr [] nodes = ret nodes"
| "getAllNodes_loop tr (operator # rest) nodes =
     (case query (C_getNode operator) (t_getNode tr operator) of
        (Inl e, t) \<Rightarrow> (Inl e, t)
      | (Inr url, t) \<Rightarrow>
          (case getAllNodes_loop tr rest
                  (if url \<noteq> [] then nodes @ [\<lparr>node_operator = operator, node_url = url\<rparr>]
                   else nodes) of
             (res, t') \<Rightarrow> (res, t @ t')))"

definition getAllNodes :: "transport \<Rightarrow> Node list outcome" where
  "getAllNodes tr =
     and_then (query C_getNodeOperators (t_getNodeOperators tr)) (\<lambda>operators.
     getAllNodes_loop tr operators [])"

definition getPartyByAddress :: "libs \<Rightarrow> transport \<Rightarrow> string \<Rightarrow> PartyDetails option outcome" where
  "getPartyByAddress env tr address =
     and_then (query (C_getPartyDetailsByAddress address)
                 (t_getPartyDetailsByAddress tr address)) (\<lambda>details.
     and_then (sync (toPartyDetails env (assign_partyAddress address details))) (\<lambda>result.
     ret (if node_operator (pd_node result) \<noteq> zero_address then Some result else None)))"

definition getPartyByOcpi ::
  "libs \<Rightarrow> transport \<Rightarrow> string \<Rightarrow> string \<Rightarrow> PartyDetails option outcome" where
  "getPartyByOcpi env tr countryCode partyId =
     and_then (sync (verifyStringLen countryCode 2)) (\<lambda>_.
     and_then (sync (verifyStringLen partyId 3)) (\<lambda>_.
     and_then (toHex env countryCode) (\<lambda>country.
     and_then (toHex env partyId) (\<lambda>ident.
     and_then (query (C_getPartyDetailsByOcpi country ident)
                 (t_getPartyDetailsByOcpi tr country ident)) (\<lambda>details.
     and_then (sync (toPartyDetails env (assign_ocpi country ident details))) (\<lambda>result.
     ret (if node_operator (pd_node result) \<noteq> zero_address then Some result else None)))))))"

fun getAllParties_loop ::
  "libs \<Rightarrow> transport \<Rightarrow> address list \<Rightarrow> PartyDetails list \<Rightarrow> PartyDetails list outcome" where
  "getAllParties_loop env tr [] details = ret details"
| "getAllParties_loop env tr (address # rest) details =
     (case query (C_getPartyDetailsByAddress address)
             (t_getPartyDetailsByAddress tr address) of
        (Inl e, t) \<Rightarrow> (Inl e, t)
      | (Inr result, t) \<Rightarrow>
          (if da_operatorAddress result \<noteq> zero_address then
             (case toPartyDetails env (assign_partyAddress address result) of
                Inl e \<Rightarrow> (Inl e, t)
              | Inr p \<Rightarrow>
                  (case getAllParties_loop env tr rest (details @ [p]) of
                     (res, t') \<Rightarrow> (res, t @ t')))
           else
             (case getAllParties_loop env tr rest details of
                (res, t') \<Rightarrow> (res, t @ t'))))"

definition getAllParties :: "libs \<Rightarrow> transport \<Rightarrow> PartyDetails list outcome" where
  "getAllParties env tr =
     and_then (query C_getParties (t_getParties tr)) (\<lambda>partyAddresses.
     getAllParties_loop env tr partyAddresses [])"

subsection \<open>The write methods\<close>

text \<open>\<^verbatim>\<open>new URL(domain)\<close> and its \<^verbatim>\<open>origin\<close>.\<close>

definition new_URL :: "libs \<Rightarrow> string \<Rightarrow> string outcome" where
  "new_URL env domain =
     (case url_origin env domain of
        None \<Rightarrow> (Inl (LibraryFailure ''Invalid URL''), [])
      | Some origin \<Rightarrow> (Inr origin, []))"

definition setNode :: "libs \<Rightarrow> transport \<Rightarrow> Registry \<Rightarrow> string \<Rightarrow> tx outcome" where
  "setNode env tr reg domain =
     and_then (sync (verifyWritable reg)) (\<lambda>_.
     and_then (new_URL env domain) (\<lambda>origin.
     and_then (send tr reg (C_setNode origin)) (\<lambda>t.
     and_then (wait tr t) (\<lambda>_.
     ret t))))"

definition setNodeRaw ::
  "libs \<Rightarrow> transport \<Rightarrow> Registry \<Rightarrow> string \<Rightarrow> private_key \<Rightarrow> tx outcome" where
  "setNodeRaw env tr reg domain signer =
     and_then (sync (verifyWritable reg)) (\<lambda>_.
     and_then (new_Wallet env signer) (\<lambda>w.
     and_then (library (sign_setNodeRaw env domain w)) (\<lambda>sg.
     and_then (send tr reg
                 (C_setNodeRaw (wallet_address w) domain (sig_v sg) (sig_r sg) (sig_s sg))) (\<lambda>t.
     and_then (wait tr t) (\<lambda>_.
     ret t)))))"

definition deleteNode :: "transport \<Rightarrow> Registry \<Rightarrow> tx outcome" where
  "deleteNode tr reg =
     and_then (sync (verifyWritable reg)) (\<lambda>_.
     and_then (send tr reg C_deleteNode) (\<lambda>t.
     and_then (wait tr t) (\<lambda>_.
     ret t)))"

definition deleteNodeRaw ::
  "libs \<Rightarrow> transport \<Rightarrow> Registry \<Rightarrow> private_key \<Rightarrow> tx outcome" where
  "deleteNodeRaw env tr reg signer =
     and_then (sync (verifyWritable reg)) (\<lambda>_.
     and_then (new_Wallet env signer) (\<lambda>w.
     and_then (library (sign_deleteNodeRaw env w)) (\<lambda>sg.
     and_then (send tr reg
                 (C_deleteNodeRaw (wallet_address w) (sig_v sg) (sig_r sg) (sig_s sg))) (\<lambda>t.
     and_then (wait tr t) (\<lambda>_.
     ret t)))))"

definition setParty ::
  "libs \<Rightarrow> transport \<Rightarrow> Registry \<Rightarrow> string \<Rightarrow> string \<Rightarrow> Role list \<Rightarrow> string \<Rightarrow> tx outcome" where
  "setParty env tr reg countryCode partyId roles operator =
     and_then (sync (verifyWritable reg)) (\<lambda>_.
     and_then (sync (verifyStringLen countryCode 2)) (\<lambda>_.
     and_then (sync (verifyStringLen partyId 3)) (\<lambda>_.
     and_then (sync (verifyAddress env operator)) (\<lambda>_.
     and_then (toHex env countryCode) (\<lambda>country.
     and_then (toHex env partyId) (\<lambda>ident.
     and_then (send tr reg (C_setParty country ident roles operator)) (\<lambda>t.
     and_then (wait tr t) (\<lambda>_.
     ret t))))))))"

definition setPartyRaw ::
  "libs \<Rightarrow> transport \<Rightarrow> Registry \<Rightarrow> string \<Rightarrow> string \<Rightarrow> Role list \<Rightarrow> string \<Rightarrow> private_key \<Rightarrow>
     tx outcome" where
  "setPartyRaw env tr reg countryCode partyId roles operator signer =
     and_then (sync (verifyWritable reg)) (\<lambda>_.
     and_then (sync (verifyStringLen countryCode 2)) (\<lambda>_.
     and_then (sync (verifyStringLen partyId 3)) (\<lambda>_.
     and_then (sync (verifyAddress env operator)) (\<lambda>_.
     and_then (toHex env countryCode) (\<lambda>country.
     and_then (toHex env partyId) (\<lambda>ident.
     and_then (new_Wallet env signer) (\<lambda>w.
     and_then (library (sign_setPartyRaw env country ident roles operator w)) (\<lambda>sg.
     and_then (send tr reg
                 (C_setPartyRaw (wallet_address w) country ident roles operator
                    (sig_v sg) (sig_r sg) (sig_s sg))) (\<lambda>t.
     and_then (wait tr t) (\<lambda>_.
     ret t))))))))))"

definition setPartyModules ::
  "transport \<Rightarrow> Registry \<Rightarrow> Module list \<Rightarrow> Module list \<Rightarrow> tx outcome" where
  "setPartyModules tr reg sender receiver =
     and_then (sync (verifyWritable reg)) (\<lambda>_.
     and_then (send tr reg (C_setPartyModules sender receiver)) (\<lambda>t.
     and_then (wait tr t) (\<lambda>_.
     ret t)))"

definition setPartyModulesRaw ::
  "libs \<Rightarrow> transport \<Rightarrow> Registry \<Rightarrow> Module list \<Rightarrow> Module list \<Rightarrow> private_key \<Rightarrow> tx outcome" where
  "setPartyModulesRaw env tr reg sender receiver signer =
     and_then (sync (verifyWritable reg)) (\<lambda>_.
     and_then (new_Wallet env signer) (\<lambda>w.
     and_then (library (sign_setPartyModulesRaw env sender receiver w)) (\<lambda>sg.
     and_then (send tr reg
                 (C_setPartyModulesRaw (wallet_address w) sender receiver
                    (sig_v sg) (sig_r sg) (sig_s sg))) (\<lambda>t.
     and_then (wait tr t) (\<lambda>_.
     ret t)))))"

definition deleteParty :: "transport \<Rightarrow> Registry \<Rightarrow> tx outcome" where
  "deleteParty tr reg =
     and_then (sync (verifyWritable reg)) (\<lambda>_.
     and_then (send tr reg C_deleteParty) (\<lambda>t.
     and_then (wait tr t) (\<lambda>_.
     ret t)))"

definition deletePartyRaw ::
  "libs \<Rightarrow> transport \<Rightarrow> Registry \<Rightarrow> private_key \<Rightarrow> tx outcome" where
  "deletePartyRaw env tr reg signer =
     and_then (sync (verifyWritable reg)) (\<lambda>_.
     and_then (new_Wallet env signer) (\<lambda>w.
     and_then (library (sign_deletePartyRaw env w)) (\<lambda>sg.
     and_then (send tr reg
                 (C_deletePartyRaw (wallet_address w) (sig_v sg) (sig_r sg) (sig_s sg))) (\<lambda>t.
     and_then (wait tr t) (\<lambda>_.
     ret t)))))"

subsection \<open>Properties of outcomes\<close>

text \<open>
  The errors of the three checks \<^verbatim>\<open>verifyWritable\<close>, \<^verbatim>\<open>verifyStringLen\<close> and
  \<^verbatim>\<open>verifyAddress\<close>.
\<close>

fun validation_error :: "error \<Rightarrow> bool" where
  "validation_error NoSigner = True"
| "validation_error (InvalidStringLength len str n) = True"
| "validation_error (InvalidAddress a) = True"
| "validation_error (NetworkNotFound n) = False"
| "validation_error (LibraryFailure m) = False"
| "validation_error (TransportFailure m) = False"

text \<open>An outcome fails fast when an error of a check comes with no call on the contract.\<close>

definition fail_fast :: "'a outcome \<Rightarrow> bool" where
  "fail_fast out =
     (case fst out of
        Inl e \<Rightarrow> validation_error e \<longrightarrow> snd out = []
      | Inr x \<Rightarrow> True)"

subsection \<open>A concrete instance\<close>

text \<open>
  An instance of the parameters on which the model is run in the examples below. Each
  library function is given on the inputs the examples use, where it agrees with the
  library: \<open>sample_getAddress\<close> is the shape test of \<^verbatim>\<open>getAddress\<close> (an optional
  \<^verbatim>\<open>0x\<close> and forty hex digits), \<open>utf8ToHex\<close> is \<^verbatim>\<open>toHex\<close> on a string of letters,
  \<open>sample_toUtf8String\<close> decodes a hex string of ASCII bytes and fails on a byte from
  \<^verbatim>\<open>0x80\<close> on (for \<^verbatim>\<open>0xff\<close>, which starts no UTF-8 sequence, so does the library),
  the two keys are development keys with their addresses, and the enum names, the table
  of origins and the signature are placeholders.
\<close>

definition hex_value :: "char \<Rightarrow> nat option" where
  "hex_value c =
     map_of (zip ''0123456789abcdefABCDEF''
       [0, 1, 2, 3, 4, 5, 6, 7, 8, 9, 10, 11, 12, 13, 14, 15, 10, 11, 12, 13, 14, 15]) c"

definition hex_digit :: "nat \<Rightarrow> char" where
  "hex_digit n = ''0123456789abcdef'' ! n"

definition utf8ToHex :: "string \<Rightarrow> string" where
  "utf8ToHex str =
     ''0x'' @ concat (map (\<lambda>c. [hex_digit (of_char c div 16), hex_digit (of_char c mod 16)]) str)"

fun ascii_of_hex :: "string \<Rightarrow> string option" where
  "ascii_of_hex [] = Some []"
| "ascii_of_hex [h] = None"
| "ascii_of_hex (h # l # rest) =
     (case (hex_value h, hex_value l) of
        (Some a, Some b) \<Rightarrow>
          (if a < 8 then map_option ((#) (char_of (16 * a + b))) (ascii_of_hex rest) else None)
      | _ \<Rightarrow> None)"

definition sample_toUtf8String :: "string \<Rightarrow> string option" where
  "sample_toUtf8String h = (if take 2 h = ''0x'' then ascii_of_hex (drop 2 h) else None)"

definition sample_getAddress :: "string \<Rightarrow> address option" where
  "sample_getAddress a =
     (let body = (if take 2 a = ''0x'' then drop 2 a else a) in
      if length body = 40 \<and> list_all (\<lambda>c. hex_value c \<noteq> None) body then Some a else None)"

definition owner_key :: private_key where
  "owner_key = ''0x59c6995e998f97a5a0044966f0945389dc9e86dae88c7a8412f4603b6b78690d''"

definition owner_address :: address where
  "owner_address = ''0x70997970C51812dc3A010C7d01b50e0d17dc79C8''"

definition spender_key :: private_key where
  "spender_key = ''0xac0974bec39a17e36ba4a6b4d238ff944bacb478cbed5efcae784d7bf4f2ff80''"

definition spender_address :: address where
  "spender_address = ''0xf39Fd6e51aad88F6F4ce6aB8827279cffFb92266''"

definition sample_signature :: signature where
  "sample_signature = \<lparr>sig_v = 27, sig_r = ''0x01'', sig_s = ''0x02''\<rparr>"

definition sample_libs :: libs where
  "sample_libs =
     \<lparr>networks =
        map_of [(''local'',
          \<lparr>net_protocol = ''http'', net_host = ''localhost'', net_port = ''8544'',
           net_contract = ''0x345cA3e014Aaf5dcA488057592ee47305D9B3e10''\<rparr>)],
      getAddress = sample_getAddress,
      toUtf8String = sample_toUtf8String,
      computeAddress = map_of [(owner_key, owner_address), (spender_key, spender_address)],
      web3_toHex = (\<lambda>str. Some (utf8ToHex str)),
      url_origin =
        map_of [(''https://node.example.org/path?x=1'', ''https://node.example.org''),
                (''https://node.example.org'', ''https://node.example.org'')],
      Role_name = (\<lambda>i. if i < 7 then
                     Some ([''CPO'', ''EMSP'', ''HUB'', ''NAP'', ''NSP'', ''OTHER'', ''SCSP''] ! i)
                   else None),
      Module_name = (\<lambda>i. if i < 7 then
                       Some ([''cdrs'', ''chargingprofiles'', ''commands'', ''locations'',
                              ''sessions'', ''tariffs'', ''tokens''] ! i)
                     else None),
      sign_setNodeRaw = (\<lambda>domain w. Inr sample_signature),
      sign_deleteNodeRaw = (\<lambda>w. Inr sample_signature),
      sign_setPartyRaw = (\<lambda>country ident roles operator w. Inr sample_signature),
      sign_setPartyModulesRaw = (\<lambda>sender receiver w. Inr sample_signature),
      sign_deletePartyRaw = (\<lambda>w. Inr sample_signature)\<rparr>"

text \<open>A listed party and the all-zero answer of the contract for a party it does not know.\<close>

definition listed_details :: details_by_address where
  "listed_details =
     \<lparr>da_countryCode = ''0x4445'', da_partyId = ''0x414243'', da_roles = [0, 1],
      da_modulesSender = [3], da_modulesReceiver = [],
      da_operatorAddress = owner_address, da_operatorDomain = ''https://node.example.org''\<rparr>"

definition absent_details :: details_by_address where
  "absent_details =
     \<lparr>da_countryCode = ''0x0000'', da_partyId = ''0x000000'', da_roles = [],
      da_modulesSender = [], da_modulesReceiver = [],
      da_operatorAddress = zero_address, da_operatorDomain = []\<rparr>"

definition party_address :: address where
  "party_address = ''0x3C44CdDdB6a900fa2b585dd299e03d12FA4293BC''"

definition listed_by_ocpi :: details_by_ocpi where
  "listed_by_ocpi =
     \<lparr>do_partyAddress = party_address, do_roles = [0, 1],
      do_modulesSender = [3], do_modulesReceiver = [],
      do_operatorAddress = owner_address, do_operatorDomain = ''https://node.example.org''\<rparr>"

definition absent_by_ocpi :: details_by_ocpi where
  "absent_by_ocpi =
     \<lparr>do_partyAddress = zero_address, do_roles = [],
      do_modulesSender = [], do_modulesReceiver = [],
      do_operatorAddress = zero_address, do_operatorDomain = []\<rparr>"

definition sample_transport :: transport where
  "sample_transport =
     \<lparr>t_getNode = (\<lambda>a. Inr (if a = owner_address then ''https://node.example.org'' else [])),
      t_getNodeOperators = Inr [owner_address],
      t_getPartyDetailsByAddress =
        (\<lambda>a. Inr (if a = party_address then listed_details else absent_details)),
      t_getPartyDetailsByOcpi =
        (\<lambda>country ident.
           if country = ''0x4445'' \<and> ident = ''0x414243'' then Inr listed_by_ocpi
           else Inr absent_by_ocpi),
      t_getParties = Inr [party_address, spender_address],
      t_send = (\<lambda>w c. Inr ''0x7e57''),
      t_wait = (\<lambda>t. Inr ())\<rparr>"






text \<open>The facade without and with a signer, as the constructor builds them.\<close>

definition reader :: Registry where
  "reader =
     \<lparr>provider = ''http://localhost:8544'', wallet = None,
      contract_address = ''0x345cA3e014Aaf5dcA488057592ee47305D9B3e10'', mode = R\<rparr>"

definition spender_wallet :: "Wallet option" where
  "spender_wallet = Some \<lparr>wallet_privateKey = spender_key, wallet_address = spender_address\<rparr>"

definition writer :: Registry where
  "writer =
     \<lparr>provider = ''http://localhost:8544'', wallet = spender_wallet,
      contract_address = ''0x345cA3e014Aaf5dcA488057592ee47305D9B3e10'', mode = RW\<rparr>"

section \<open>Properties\<close>

subsection \<open>Sequencing\<close>

lemma and_then_sync: "and_then (sync r) f = (case r of Inl e \<Rightarrow> (Inl e, []) | Inr x \<Rightarrow> f x)"
  by (cases r) (simp_all add: sync_def and_then_def split: prod.splits)

lemma fst_and_then:
  "fst (and_then m f) = (case fst m of Inl e \<Rightarrow> Inl e | Inr x \<Rightarrow> fst (f x))"
  by (cases m) (simp add: and_then_def split: sum.splits prod.splits)

lemma snd_and_then:
  "snd (and_then m f) = (case fst m of Inl e \<Rightarrow> snd m | Inr x \<Rightarrow> snd m @ snd (f x))"
  by (cases m) (simp add: and_then_def split: sum.splits prod.splits)

subsection \<open>Read-only mode\<close>

lemma verifyWritable_R: "mode reg = R \<Longrightarrow> verifyWritable reg = Inl NoSigner"
  by (simp add: verifyWritable_def)

lemma verifyWritable_RW: "mode reg = RW \<Longrightarrow> verifyWritable reg = Inr ()"
  by (simp add: verifyWritable_def)

lemma constructor_without_key:
  "signer = None \<or> signer = Some [] \<Longrightarrow> constructor env environment signer = Inr reg \<Longrightarrow>
     mode reg = R \<and> wallet reg = None"
  by (auto simp: constructor_def Let_def split: option.splits)

lemma constructor_with_key:
  "constructor env environment (Some key) = Inr reg \<Longrightarrow> key \<noteq> [] \<Longrightarrow>
     mode reg = RW \<and> (\<exists>a. computeAddress env key = Some a \<and>
       wallet reg = Some \<lparr>wallet_privateKey = key, wallet_address = a\<rparr>)"
  by (auto simp: constructor_def new_Wallet_def Let_def split: option.splits sum.splits)

lemma setNode_R: "mode reg = R \<Longrightarrow> setNode env tr reg domain = (Inl NoSigner, [])"
  by (simp add: setNode_def verifyWritable_R and_then_sync)

lemma setNodeRaw_R: "mode reg = R \<Longrightarrow> setNodeRaw env tr reg domain signer = (Inl NoSigner, [])"
  by (simp add: setNodeRaw_def verifyWritable_R and_then_sync)

lemma deleteNode_R: "mode reg = R \<Longrightarrow> deleteNode tr reg = (Inl NoSigner, [])"
  by (simp add: deleteNode_def verifyWritable_R and_then_sync)

lemma deleteNodeRaw_R: "mode reg = R \<Longrightarrow> deleteNodeRaw env tr reg signer = (Inl NoSigner, [])"
  by (simp add: deleteNodeRaw_def verifyWritable_R and_then_sync)

lemma setParty_R:
  "mode reg = R \<Longrightarrow> setParty env tr reg countryCode partyId roles operator = (Inl NoSigner, [])"
  by (simp add: setParty_def verifyWritable_R and_then_sync)

lemma setPartyRaw_R:
  "mode reg = R \<Longrightarrow>
     setPartyRaw env tr reg countryCode partyId roles operator signer = (Inl NoSigner, [])"
  by (simp add: setPartyRaw_def verifyWritable_R and_then_sync)

lemma setPartyModules_R:
  "mode reg = R \<Longrightarrow> setPartyModules tr reg sender receiver = (Inl NoSigner, [])"
  by (simp add: setPartyModules_def verifyWritable_R and_then_sync)

lemma setPartyModulesRaw_R:
  "mode reg = R \<Longrightarrow> setPartyModulesRaw env tr reg sender receiver signer = (Inl NoSigner, [])"
  by (simp add: setPartyModulesRaw_def verifyWritable_R and_then_sync)

lemma deleteParty_R: "mode reg = R \<Longrightarrow> deleteParty tr reg = (Inl NoSigner, [])"
  by (simp add: deleteParty_def verifyWritable_R and_then_sync)

lemma deletePartyRaw_R: "mode reg = R \<Longrightarrow> deletePartyRaw env tr reg signer = (Inl NoSigner, [])"
  by (simp add: deletePartyRaw_def verifyWritable_R and_then_sync)

lemma constructor_reader: "constructor sample_libs ''local'' None = Inr reader"
  by (simp add: constructor_def sample_libs_def reader_def)

lemma constructor_writer: "constructor sample_libs ''local'' (Some spender_key) = Inr writer"
  by (simp add: constructor_def sample_libs_def writer_def spender_wallet_def new_Wallet_def
        spender_key_def owner_key_def)

text \<open>
  C3: a facade that the constructor built without a signer (none, or the empty string, which
  \<^verbatim>\<open>if (signer)\<close> treats alike) rejects each of the ten write methods with the error of
  \<^verbatim>\<open>verifyWritable\<close> and has made no call on the contract; a facade built with a
  signer passes \<^verbatim>\<open>verifyWritable\<close>.
\<close>

theorem read_only_facade_rejects_writes:
  "((signer = None \<or> signer = Some []) \<and> constructor env environment signer = Inr reg \<longrightarrow>
      setNode env tr reg domain = (Inl NoSigner, []) \<and>
      setNodeRaw env tr reg domain key = (Inl NoSigner, []) \<and>
      deleteNode tr reg = (Inl NoSigner, []) \<and>
      deleteNodeRaw env tr reg key = (Inl NoSigner, []) \<and>
      setParty env tr reg countryCode partyId roles operator = (Inl NoSigner, []) \<and>
      setPartyRaw env tr reg countryCode partyId roles operator key = (Inl NoSigner, []) \<and>
      setPartyModules tr reg sender receiver = (Inl NoSigner, []) \<and>
      setPartyModulesRaw env tr reg sender receiver key = (Inl NoSigner, []) \<and>
      deleteParty tr reg = (Inl NoSigner, []) \<and>
      deletePartyRaw env tr reg key = (Inl NoSigner, [])) \<and>
   (key \<noteq> [] \<and> constructor env environment (Some key) = Inr reg' \<longrightarrow>
      verifyWritable reg' = Inr ())"
proof (intro conjI impI)
  assume "key \<noteq> [] \<and> constructor env environment (Some key) = Inr reg'"
  then show "verifyWritable reg' = Inr ()"
    using constructor_with_key [of env environment key reg'] by (simp add: verifyWritable_RW)
next
  assume "(signer = None \<or> signer = Some []) \<and> constructor env environment signer = Inr reg"
  then have r: "mode reg = R"
    using constructor_without_key [of signer env environment reg] by blast
  show "setNode env tr reg domain = (Inl NoSigner, [])" using r by (rule setNode_R)
  show "setNodeRaw env tr reg domain key = (Inl NoSigner, [])" using r by (rule setNodeRaw_R)
  show "deleteNode tr reg = (Inl NoSigner, [])" using r by (rule deleteNode_R)
  show "deleteNodeRaw env tr reg key = (Inl NoSigner, [])" using r by (rule deleteNodeRaw_R)
  show "setParty env tr reg countryCode partyId roles operator = (Inl NoSigner, [])"
    using r by (rule setParty_R)
  show "setPartyRaw env tr reg countryCode partyId roles operator key = (Inl NoSigner, [])"
    using r by (rule setPartyRaw_R)
  show "setPartyModules tr reg sender receiver = (Inl NoSigner, [])"
    using r by (rule setPartyModules_R)
  show "setPartyModulesRaw env tr reg sender receiver key = (Inl NoSigner, [])"
    using r by (rule setPartyModulesRaw_R)
  show "deleteParty tr reg = (Inl NoSigner, [])" using r by (rule deleteParty_R)
  show "deletePartyRaw env tr reg key = (Inl NoSigner, [])" using r by (rule deletePartyRaw_R)
qed

theorem read_only_facade_rejects_writes_witness:
  "constructor sample_libs ''local'' None = Inr reader \<and>
   setNode sample_libs sample_transport reader ''https://node.example.org'' = (Inl NoSigner, []) \<and>
   setNodeRaw sample_libs sample_transport reader ''https://node.example.org'' spender_key =
     (Inl NoSigner, []) \<and>
   deleteNode sample_transport reader = (Inl NoSigner, []) \<and>
   deleteNodeRaw sample_libs sample_transport reader spender_key = (Inl NoSigner, []) \<and>
   setParty sample_libs sample_transport reader ''DE'' ''ABC'' [0] owner_address =
     (Inl NoSigner, []) \<and>
   setPartyRaw sample_libs sample_transport reader ''DE'' ''ABC'' [0] owner_address spender_key =
     (Inl NoSigner, []) \<and>
   setPartyModules sample_transport reader [3] [] = (Inl NoSigner, []) \<and>
   setPartyModulesRaw sample_libs sample_transport reader [3] [] spender_key =
     (Inl NoSigner, []) \<and>
   deleteParty sample_transport reader = (Inl NoSigner, []) \<and>
   deletePartyRaw sample_libs sample_transport reader spender_key = (Inl NoSigner, []) \<and>
   spender_key \<noteq> [] \<and>
   constructor sample_libs ''local'' (Some spender_key) = Inr writer \<and>
   verifyWritable writer = Inr ()"
proof -
  have k: "spender_key \<noteq> []" by (simp add: spender_key_def)
  show ?thesis
    using read_only_facade_rejects_writes [where signer = None and env = sample_libs
        and environment = "''local''" and reg = reader and reg' = writer
        and key = spender_key and tr = sample_transport
        and domain = "''https://node.example.org''" and countryCode = "''DE''"
        and partyId = "''ABC''" and roles = "[0]" and operator = owner_address
        and sender = "[3]" and receiver = "[]"]
      constructor_reader constructor_writer k
    by simp
qed

subsection \<open>The length check\<close>

lemma verifyStringLen_ok: "length str = len \<Longrightarrow> verifyStringLen str len = Inr ()"
  by (simp add: verifyStringLen_def)

lemma verifyStringLen_bad:
  "length str \<noteq> len \<Longrightarrow> verifyStringLen str len = Inl (InvalidStringLength len str (length str))"
  by (simp add: verifyStringLen_def)

lemma getPartyByOcpi_bad_country:
  "length countryCode \<noteq> 2 \<Longrightarrow>
     getPartyByOcpi env tr countryCode partyId =
       (Inl (InvalidStringLength 2 countryCode (length countryCode)), [])"
  by (simp add: getPartyByOcpi_def verifyStringLen_bad and_then_sync)

lemma getPartyByOcpi_bad_party:
  "length countryCode = 2 \<Longrightarrow> length partyId \<noteq> 3 \<Longrightarrow>
     getPartyByOcpi env tr countryCode partyId =
       (Inl (InvalidStringLength 3 partyId (length partyId)), [])"
  by (simp add: getPartyByOcpi_def verifyStringLen_bad verifyStringLen_ok and_then_sync)

lemma setParty_bad_country:
  "mode reg = RW \<Longrightarrow> length countryCode \<noteq> 2 \<Longrightarrow>
     setParty env tr reg countryCode partyId roles operator =
       (Inl (InvalidStringLength 2 countryCode (length countryCode)), [])"
  by (simp add: setParty_def verifyWritable_RW verifyStringLen_bad and_then_sync)

lemma setParty_bad_party:
  "mode reg = RW \<Longrightarrow> length countryCode = 2 \<Longrightarrow> length partyId \<noteq> 3 \<Longrightarrow>
     setParty env tr reg countryCode partyId roles operator =
       (Inl (InvalidStringLength 3 partyId (length partyId)), [])"
  by (simp add: setParty_def verifyWritable_RW verifyStringLen_bad verifyStringLen_ok
        and_then_sync)

lemma setPartyRaw_bad_country:
  "mode reg = RW \<Longrightarrow> length countryCode \<noteq> 2 \<Longrightarrow>
     setPartyRaw env tr reg countryCode partyId roles operator signer =
       (Inl (InvalidStringLength 2 countryCode (length countryCode)), [])"
  by (simp add: setPartyRaw_def verifyWritable_RW verifyStringLen_bad and_then_sync)

lemma setPartyRaw_bad_party:
  "mode reg = RW \<Longrightarrow> length countryCode = 2 \<Longrightarrow> length partyId \<noteq> 3 \<Longrightarrow>
     setPartyRaw env tr reg countryCode partyId roles operator signer =
       (Inl (InvalidStringLength 3 partyId (length partyId)), [])"
  by (simp add: setPartyRaw_def verifyWritable_RW verifyStringLen_bad verifyStringLen_ok
        and_then_sync)

text \<open>The local steps and the calls never raise the error of the length check.\<close>

lemmas step_defs =
  sync_def ret_def library_def query_def send_def wait_def toHex_def new_Wallet_def new_URL_def
  verifyWritable_def verifyAddress_def toPartyDetails_def

lemma getPartyByOcpi_accepts:
  "length countryCode = 2 \<Longrightarrow> length partyId = 3 \<Longrightarrow>
     fst (getPartyByOcpi env tr countryCode partyId) \<noteq> Inl (InvalidStringLength n s m)"
  by (simp add: getPartyByOcpi_def verifyStringLen_ok and_then_sync fst_and_then step_defs
        split: sum.splits option.splits)

lemma setParty_accepts:
  "length countryCode = 2 \<Longrightarrow> length partyId = 3 \<Longrightarrow>
     fst (setParty env tr reg countryCode partyId roles operator) \<noteq>
       Inl (InvalidStringLength n s m)"
  by (simp add: setParty_def verifyStringLen_ok and_then_sync fst_and_then step_defs
        split: sum.splits option.splits)

lemma setPartyRaw_accepts:
  "length countryCode = 2 \<Longrightarrow> length partyId = 3 \<Longrightarrow>
     fst (setPartyRaw env tr reg countryCode partyId roles operator signer) \<noteq>
       Inl (InvalidStringLength n s m)"
  by (simp add: setPartyRaw_def verifyStringLen_ok and_then_sync fst_and_then step_defs
        split: sum.splits option.splits)

text \<open>
  C7: \<^verbatim>\<open>verifyStringLen\<close> throws for a string whose length is not the wanted one and
  returns for every string of that length, whatever its characters; \<^verbatim>\<open>getPartyByOcpi\<close>
  and, on a writable facade, \<^verbatim>\<open>setParty\<close> and \<^verbatim>\<open>setPartyRaw\<close> reject a country code
  whose length is not 2 and a party id whose length is not 3 with that error and no call
  on the contract, and never raise it for a country code of length 2 with a party id of
  length 3.
\<close>

theorem verifyStringLen_exact:
  "(length bad \<noteq> len \<longrightarrow>
      verifyStringLen bad len = Inl (InvalidStringLength len bad (length bad))) \<and>
   (length str = len' \<longrightarrow> verifyStringLen str len' = Inr ()) \<and>
   (length bad_country \<noteq> 2 \<longrightarrow>
      getPartyByOcpi env tr bad_country partyId =
        (Inl (InvalidStringLength 2 bad_country (length bad_country)), []) \<and>
      (mode reg = RW \<longrightarrow>
         setParty env tr reg bad_country partyId roles operator =
           (Inl (InvalidStringLength 2 bad_country (length bad_country)), []) \<and>
         setPartyRaw env tr reg bad_country partyId roles operator signer =
           (Inl (InvalidStringLength 2 bad_country (length bad_country)), []))) \<and>
   (length countryCode = 2 \<and> length bad_party \<noteq> 3 \<longrightarrow>
      getPartyByOcpi env tr countryCode bad_party =
        (Inl (InvalidStringLength 3 bad_party (length bad_party)), []) \<and>
      (mode reg = RW \<longrightarrow>
         setParty env tr reg countryCode bad_party roles operator =
           (Inl (InvalidStringLength 3 bad_party (length bad_party)), []) \<and>
         setPartyRaw env tr reg countryCode bad_party roles operator signer =
           (Inl (InvalidStringLength 3 bad_party (length bad_party)), []))) \<and>
   (length countryCode = 2 \<and> length partyId = 3 \<longrightarrow>
      fst (getPartyByOcpi env tr countryCode partyId) \<noteq> Inl (InvalidStringLength n s m) \<and>
      fst (setParty env tr reg countryCode partyId roles operator) \<noteq>
        Inl (InvalidStringLength n s m) \<and>
      fst (setPartyRaw env tr reg countryCode partyId roles operator signer) \<noteq>
        Inl (InvalidStringLength n s m))"
  by (intro conjI impI)
    (simp_all add: verifyStringLen_ok verifyStringLen_bad getPartyByOcpi_bad_country
      getPartyByOcpi_bad_party setParty_bad_country setParty_bad_party setPartyRaw_bad_country
      setPartyRaw_bad_party getPartyByOcpi_accepts setParty_accepts setPartyRaw_accepts)

lemma getPartyByOcpi_symbols:
  "getPartyByOcpi sample_libs sample_transport ''1!'' ''a$c'' =
     (Inr None, [Query (C_getPartyDetailsByOcpi ''0x3121'' ''0x412443'')])"
  by code_simp

theorem verifyStringLen_exact_witness:
  "verifyStringLen ''D'' 2 = Inl (InvalidStringLength 2 ''D'' 1) \<and>
   verifyStringLen ''1!'' 2 = Inr () \<and>
   getPartyByOcpi sample_libs sample_transport ''DEU'' ''a$c'' =
     (Inl (InvalidStringLength 2 ''DEU'' 3), []) \<and>
   setParty sample_libs sample_transport writer ''DEU'' ''a$c'' [0] owner_address =
     (Inl (InvalidStringLength 2 ''DEU'' 3), []) \<and>
   setPartyRaw sample_libs sample_transport writer ''DEU'' ''a$c'' [0] owner_address owner_key =
     (Inl (InvalidStringLength 2 ''DEU'' 3), []) \<and>
   getPartyByOcpi sample_libs sample_transport ''1!'' ''AB'' =
     (Inl (InvalidStringLength 3 ''AB'' 2), []) \<and>
   setParty sample_libs sample_transport writer ''1!'' ''AB'' [0] owner_address =
     (Inl (InvalidStringLength 3 ''AB'' 2), []) \<and>
   setPartyRaw sample_libs sample_transport writer ''1!'' ''AB'' [0] owner_address owner_key =
     (Inl (InvalidStringLength 3 ''AB'' 2), []) \<and>
   fst (getPartyByOcpi sample_libs sample_transport ''1!'' ''a$c'') \<noteq>
     Inl (InvalidStringLength 2 ''1!'' 2) \<and>
   fst (getPartyByOcpi sample_libs sample_transport ''1!'' ''a$c'') = Inr None"
  using verifyStringLen_exact [where bad = "''D''" and len = 2 and str = "''1!''" and len' = 2
      and bad_country = "''DEU''" and partyId = "''a$c''" and countryCode = "''1!''"
      and bad_party = "''AB''" and env = sample_libs and tr = sample_transport and reg = writer
      and roles = "[0]" and operator = owner_address and signer = owner_key
      and n = 2 and s = "''1!''" and m = 2]
    getPartyByOcpi_symbols
  by (simp add: writer_def)

subsection \<open>The address check\<close>






lemma getPartyByAddress_error:
  "fst (getPartyByAddress env tr address) = Inl e \<Longrightarrow>
     (\<exists>m. e = TransportFailure m) \<or> (\<exists>m. e = LibraryFailure m)"
  by (auto simp: getPartyByAddress_def and_then_sync fst_and_then step_defs
        split: sum.splits option.splits)



lemma sample_getAddress_owner: "getAddress sample_libs owner_address = Some owner_address"
  by code_simp



subsection \<open>The raw transactions: who signs and who sends\<close>

lemma setNodeRaw_sent:
  "Send w (C_setNodeRaw a d v r s) \<in> set (snd (setNodeRaw env tr reg domain signer)) \<Longrightarrow>
     computeAddress env signer = Some a \<and> w = wallet reg \<and> d = domain"
  by (auto simp: setNodeRaw_def and_then_sync snd_and_then step_defs
        split: sum.splits option.splits if_splits)

lemma deleteNodeRaw_sent:
  "Send w (C_deleteNodeRaw a v r s) \<in> set (snd (deleteNodeRaw env tr reg signer)) \<Longrightarrow>
     computeAddress env signer = Some a \<and> w = wallet reg"
  by (auto simp: deleteNodeRaw_def and_then_sync snd_and_then step_defs
        split: sum.splits option.splits if_splits)

lemma setPartyModulesRaw_sent:
  "Send w (C_setPartyModulesRaw a ms mr v r s) \<in>
     set (snd (setPartyModulesRaw env tr reg sender receiver signer)) \<Longrightarrow>
     computeAddress env signer = Some a \<and> w = wallet reg"
  by (auto simp: setPartyModulesRaw_def and_then_sync snd_and_then step_defs
        split: sum.splits option.splits if_splits)

lemma deletePartyRaw_sent:
  "Send w (C_deletePartyRaw a v r s) \<in> set (snd (deletePartyRaw env tr reg signer)) \<Longrightarrow>
     computeAddress env signer = Some a \<and> w = wallet reg"
  by (auto simp: deletePartyRaw_def and_then_sync snd_and_then step_defs
        split: sum.splits option.splits if_splits)

lemma setPartyRaw_sent:
  "Send w (C_setPartyRaw a c p rs op v r s) \<in>
     set (snd (setPartyRaw env tr reg countryCode partyId roles operator signer)) \<Longrightarrow>
     computeAddress env signer = Some a \<and> w = wallet reg \<and>
     web3_toHex env (toUpperCase countryCode) = Some c \<and>
     web3_toHex env (toUpperCase partyId) = Some p \<and>
     (\<exists>sg. sign_setPartyRaw env c p roles operator
              \<lparr>wallet_privateKey = signer, wallet_address = a\<rparr> = Inr sg \<and>
           v = sig_v sg \<and> r = sig_r sg \<and> s = sig_s sg)"
  by (auto simp: setPartyRaw_def verifyStringLen_def and_then_sync snd_and_then step_defs
        split: sum.splits option.splits if_splits)

lemma setNodeRaw_sends:
  "mode reg = RW \<Longrightarrow> computeAddress env signer = Some a \<Longrightarrow>
   sign_setNodeRaw env domain \<lparr>wallet_privateKey = signer, wallet_address = a\<rparr> = Inr sg \<Longrightarrow>
     \<exists>rest. snd (setNodeRaw env tr reg domain signer) =
       Send (wallet reg) (C_setNodeRaw a domain (sig_v sg) (sig_r sg) (sig_s sg)) # rest"
  by (simp add: setNodeRaw_def and_then_sync snd_and_then step_defs
        split: sum.splits option.splits)

lemma deleteNodeRaw_sends:
  "mode reg = RW \<Longrightarrow> computeAddress env signer = Some a \<Longrightarrow>
   sign_deleteNodeRaw env \<lparr>wallet_privateKey = signer, wallet_address = a\<rparr> = Inr sg \<Longrightarrow>
     \<exists>rest. snd (deleteNodeRaw env tr reg signer) =
       Send (wallet reg) (C_deleteNodeRaw a (sig_v sg) (sig_r sg) (sig_s sg)) # rest"
  by (simp add: deleteNodeRaw_def and_then_sync snd_and_then step_defs
        split: sum.splits option.splits)

lemma setPartyModulesRaw_sends:
  "mode reg = RW \<Longrightarrow> computeAddress env signer = Some a \<Longrightarrow>
   sign_setPartyModulesRaw env sender receiver
     \<lparr>wallet_privateKey = signer, wallet_address = a\<rparr> = Inr sg \<Longrightarrow>
     \<exists>rest. snd (setPartyModulesRaw env tr reg sender receiver signer) =
       Send (wallet reg)
         (C_setPartyModulesRaw a sender receiver (sig_v sg) (sig_r sg) (sig_s sg)) # rest"
  by (simp add: setPartyModulesRaw_def and_then_sync snd_and_then step_defs
        split: sum.splits option.splits)

lemma deletePartyRaw_sends:
  "mode reg = RW \<Longrightarrow> computeAddress env signer = Some a \<Longrightarrow>
   sign_deletePartyRaw env \<lparr>wallet_privateKey = signer, wallet_address = a\<rparr> = Inr sg \<Longrightarrow>
     \<exists>rest. snd (deletePartyRaw env tr reg signer) =
       Send (wallet reg) (C_deletePartyRaw a (sig_v sg) (sig_r sg) (sig_s sg)) # rest"
  by (simp add: deletePartyRaw_def and_then_sync snd_and_then step_defs
        split: sum.splits option.splits)

lemma setPartyRaw_sends:
  "mode reg = RW \<Longrightarrow> length countryCode = 2 \<Longrightarrow> length partyId = 3 \<Longrightarrow>
   getAddress env operator = Some b \<Longrightarrow>
   web3_toHex env (toUpperCase countryCode) = Some c \<Longrightarrow>
   web3_toHex env (toUpperCase partyId) = Some p \<Longrightarrow>
   computeAddress env signer = Some a \<Longrightarrow>
   sign_setPartyRaw env c p roles operator
     \<lparr>wallet_privateKey = signer, wallet_address = a\<rparr> = Inr sg \<Longrightarrow>
     \<exists>rest. snd (setPartyRaw env tr reg countryCode partyId roles operator signer) =
       Send (wallet reg)
         (C_setPartyRaw a c p roles operator (sig_v sg) (sig_r sg) (sig_s sg)) # rest"
  by (simp add: setPartyRaw_def verifyStringLen_def and_then_sync snd_and_then step_defs
        split: sum.splits option.splits)

text \<open>
  C9: in each of the five raw methods the address passed first to the contract is the one
  derived from the private key given to the method (\<^verbatim>\<open>wallet.address\<close> of
  \<^verbatim>\<open>new ethers.Wallet(signer)\<close>), whatever wallet the facade holds, and the transaction
  is sent by the facade's own wallet: a raw call found among the calls made carries that
  address and that sender, and on a writable facade with a key and a signature the library
  accepts the call is made.
\<close>

theorem raw_claimed_address_from_supplied_key:
  "(Send w (C_setNodeRaw a d v r s) \<in> set (snd (setNodeRaw env tr reg domain signer)) \<longrightarrow>
      computeAddress env signer = Some a \<and> w = wallet reg) \<and>
   (Send w (C_deleteNodeRaw a v r s) \<in> set (snd (deleteNodeRaw env tr reg signer)) \<longrightarrow>
      computeAddress env signer = Some a \<and> w = wallet reg) \<and>
   (Send w (C_setPartyRaw a c p rs op v r s) \<in>
      set (snd (setPartyRaw env tr reg countryCode partyId roles operator signer)) \<longrightarrow>
      computeAddress env signer = Some a \<and> w = wallet reg) \<and>
   (Send w (C_setPartyModulesRaw a ms mr v r s) \<in>
      set (snd (setPartyModulesRaw env tr reg sender receiver signer)) \<longrightarrow>
      computeAddress env signer = Some a \<and> w = wallet reg) \<and>
   (Send w (C_deletePartyRaw a v r s) \<in> set (snd (deletePartyRaw env tr reg signer)) \<longrightarrow>
      computeAddress env signer = Some a \<and> w = wallet reg) \<and>
   (mode reg = RW \<and> computeAddress env signer = Some a' \<longrightarrow>
      (sign_setNodeRaw env domain \<lparr>wallet_privateKey = signer, wallet_address = a'\<rparr> = Inr sg
         \<longrightarrow> (\<exists>rest. snd (setNodeRaw env tr reg domain signer) =
                Send (wallet reg)
                  (C_setNodeRaw a' domain (sig_v sg) (sig_r sg) (sig_s sg)) # rest)) \<and>
      (sign_deleteNodeRaw env \<lparr>wallet_privateKey = signer, wallet_address = a'\<rparr> = Inr sg
         \<longrightarrow> (\<exists>rest. snd (deleteNodeRaw env tr reg signer) =
                Send (wallet reg) (C_deleteNodeRaw a' (sig_v sg) (sig_r sg) (sig_s sg)) # rest)) \<and>
      (length countryCode = 2 \<and> length partyId = 3 \<and> getAddress env operator = Some b \<and>
       web3_toHex env (toUpperCase countryCode) = Some c \<and>
       web3_toHex env (toUpperCase partyId) = Some p \<and>
       sign_setPartyRaw env c p roles operator
         \<lparr>wallet_privateKey = signer, wallet_address = a'\<rparr> = Inr sg
         \<longrightarrow> (\<exists>rest. snd (setPartyRaw env tr reg countryCode partyId roles operator signer) =
                Send (wallet reg)
                  (C_setPartyRaw a' c p roles operator (sig_v sg) (sig_r sg) (sig_s sg))
                # rest)) \<and>
      (sign_setPartyModulesRaw env sender receiver
         \<lparr>wallet_privateKey = signer, wallet_address = a'\<rparr> = Inr sg
         \<longrightarrow> (\<exists>rest. snd (setPartyModulesRaw env tr reg sender receiver signer) =
                Send (wallet reg)
                  (C_setPartyModulesRaw a' sender receiver (sig_v sg) (sig_r sg) (sig_s sg))
                # rest)) \<and>
      (sign_deletePartyRaw env \<lparr>wallet_privateKey = signer, wallet_address = a'\<rparr> = Inr sg
         \<longrightarrow> (\<exists>rest. snd (deletePartyRaw env tr reg signer) =
                Send (wallet reg)
                  (C_deletePartyRaw a' (sig_v sg) (sig_r sg) (sig_s sg)) # rest)))"
proof (intro conjI impI)
  show "computeAddress env signer = Some a" "w = wallet reg"
    if "Send w (C_setNodeRaw a d v r s) \<in> set (snd (setNodeRaw env tr reg domain signer))"
    using setNodeRaw_sent [OF that] by simp_all
  show "computeAddress env signer = Some a" "w = wallet reg"
    if "Send w (C_deleteNodeRaw a v r s) \<in> set (snd (deleteNodeRaw env tr reg signer))"
    using deleteNodeRaw_sent [OF that] by simp_all
  show "computeAddress env signer = Some a" "w = wallet reg"
    if "Send w (C_setPartyRaw a c p rs op v r s) \<in>
          set (snd (setPartyRaw env tr reg countryCode partyId roles operator signer))"
    using setPartyRaw_sent [OF that] by simp_all
  show "computeAddress env signer = Some a" "w = wallet reg"
    if "Send w (C_setPartyModulesRaw a ms mr v r s) \<in>
          set (snd (setPartyModulesRaw env tr reg sender receiver signer))"
    using setPartyModulesRaw_sent [OF that] by simp_all
  show "computeAddress env signer = Some a" "w = wallet reg"
    if "Send w (C_deletePartyRaw a v r s) \<in> set (snd (deletePartyRaw env tr reg signer))"
    using deletePartyRaw_sent [OF that] by simp_all
next
  assume rw: "mode reg = RW \<and> computeAddress env signer = Some a'"
  show "\<exists>rest. snd (setNodeRaw env tr reg domain signer) =
          Send (wallet reg) (C_setNodeRaw a' domain (sig_v sg) (sig_r sg) (sig_s sg)) # rest"
    if "sign_setNodeRaw env domain \<lparr>wallet_privateKey = signer, wallet_address = a'\<rparr> = Inr sg"
    using rw that by (simp add: setNodeRaw_sends)
  show "\<exists>rest. snd (deleteNodeRaw env tr reg signer) =
          Send (wallet reg) (C_deleteNodeRaw a' (sig_v sg) (sig_r sg) (sig_s sg)) # rest"
    if "sign_deleteNodeRaw env \<lparr>wallet_privateKey = signer, wallet_address = a'\<rparr> = Inr sg"
    using rw that by (simp add: deleteNodeRaw_sends)
  show "\<exists>rest. snd (setPartyRaw env tr reg countryCode partyId roles operator signer) =
          Send (wallet reg)
            (C_setPartyRaw a' c p roles operator (sig_v sg) (sig_r sg) (sig_s sg)) # rest"
    if "length countryCode = 2 \<and> length partyId = 3 \<and> getAddress env operator = Some b \<and>
        web3_toHex env (toUpperCase countryCode) = Some c \<and>
        web3_toHex env (toUpperCase partyId) = Some p \<and>
        sign_setPartyRaw env c p roles operator
          \<lparr>wallet_privateKey = signer, wallet_address = a'\<rparr> = Inr sg"
    using rw that setPartyRaw_sends [of reg countryCode partyId env operator b c p signer a' roles sg tr]
    by simp
  show "\<exists>rest. snd (setPartyModulesRaw env tr reg sender receiver signer) =
          Send (wallet reg)
            (C_setPartyModulesRaw a' sender receiver (sig_v sg) (sig_r sg) (sig_s sg)) # rest"
    if "sign_setPartyModulesRaw env sender receiver
          \<lparr>wallet_privateKey = signer, wallet_address = a'\<rparr> = Inr sg"
    using rw that by (simp add: setPartyModulesRaw_sends)
  show "\<exists>rest. snd (deletePartyRaw env tr reg signer) =
          Send (wallet reg) (C_deletePartyRaw a' (sig_v sg) (sig_r sg) (sig_s sg)) # rest"
    if "sign_deletePartyRaw env \<lparr>wallet_privateKey = signer, wallet_address = a'\<rparr> = Inr sg"
    using rw that by (simp add: deletePartyRaw_sends)
qed

text \<open>The five raw methods run by the spender's facade with the owner's key.\<close>

lemma run_setNodeRaw:
  "setNodeRaw sample_libs sample_transport writer ''https://node.example.org'' owner_key =
     (Inr ''0x7e57'',
      [Send spender_wallet
         (C_setNodeRaw owner_address ''https://node.example.org'' 27 ''0x01'' ''0x02''),
       Wait ''0x7e57''])"
  by code_simp

lemma run_deleteNodeRaw:
  "deleteNodeRaw sample_libs sample_transport writer owner_key =
     (Inr ''0x7e57'',
      [Send spender_wallet (C_deleteNodeRaw owner_address 27 ''0x01'' ''0x02''),
       Wait ''0x7e57''])"
  by code_simp

lemma run_setPartyRaw:
  "setPartyRaw sample_libs sample_transport writer ''de'' ''abc'' [0] owner_address owner_key =
     (Inr ''0x7e57'',
      [Send spender_wallet
         (C_setPartyRaw owner_address ''0x4445'' ''0x414243'' [0] owner_address
            27 ''0x01'' ''0x02''),
       Wait ''0x7e57''])"
  by code_simp

lemma run_setPartyModulesRaw:
  "setPartyModulesRaw sample_libs sample_transport writer [3] [] owner_key =
     (Inr ''0x7e57'',
      [Send spender_wallet (C_setPartyModulesRaw owner_address [3] [] 27 ''0x01'' ''0x02''),
       Wait ''0x7e57''])"
  by code_simp

lemma run_deletePartyRaw:
  "deletePartyRaw sample_libs sample_transport writer owner_key =
     (Inr ''0x7e57'',
      [Send spender_wallet (C_deletePartyRaw owner_address 27 ''0x01'' ''0x02''),
       Wait ''0x7e57''])"
  by code_simp

lemma sample_computeAddress_owner: "computeAddress sample_libs owner_key = Some owner_address"
  by code_simp

lemma owner_is_not_spender: "owner_address \<noteq> spender_address"
  by code_simp

lemma wallet_writer: "wallet writer = spender_wallet" "mode writer = RW"
  by (simp_all add: writer_def spender_wallet_def)

lemma upper_de: "toUpperCase ''de'' = ''DE''" "toUpperCase ''abc'' = ''ABC''"
  by (simp_all add: toUpperCase_def toUpperCase_unit_def)

lemma sample_toHex: "web3_toHex sample_libs ''DE'' = Some ''0x4445''"
  "web3_toHex sample_libs ''ABC'' = Some ''0x414243''"
  by code_simp+

lemma sample_signs:
  "sign_setNodeRaw sample_libs domain w = Inr sample_signature"
  "sign_deleteNodeRaw sample_libs w = Inr sample_signature"
  "sign_setPartyRaw sample_libs c p roles operator w = Inr sample_signature"
  "sign_setPartyModulesRaw sample_libs sender receiver w = Inr sample_signature"
  "sign_deletePartyRaw sample_libs w = Inr sample_signature"
  by (simp_all add: sample_libs_def)

theorem raw_claimed_address_from_supplied_key_witness:
  "Send spender_wallet
     (C_setNodeRaw owner_address ''https://node.example.org'' 27 ''0x01'' ''0x02'') \<in>
     set (snd (setNodeRaw sample_libs sample_transport writer ''https://node.example.org''
            owner_key)) \<and>
   Send spender_wallet (C_deleteNodeRaw owner_address 27 ''0x01'' ''0x02'') \<in>
     set (snd (deleteNodeRaw sample_libs sample_transport writer owner_key)) \<and>
   Send spender_wallet
     (C_setPartyRaw owner_address ''0x4445'' ''0x414243'' [0] owner_address
        27 ''0x01'' ''0x02'') \<in>
     set (snd (setPartyRaw sample_libs sample_transport writer ''de'' ''abc'' [0] owner_address
            owner_key)) \<and>
   Send spender_wallet (C_setPartyModulesRaw owner_address [3] [] 27 ''0x01'' ''0x02'') \<in>
     set (snd (setPartyModulesRaw sample_libs sample_transport writer [3] [] owner_key)) \<and>
   Send spender_wallet (C_deletePartyRaw owner_address 27 ''0x01'' ''0x02'') \<in>
     set (snd (deletePartyRaw sample_libs sample_transport writer owner_key)) \<and>
   mode writer = RW \<and>
   computeAddress sample_libs owner_key = Some owner_address \<and>
   sign_setNodeRaw sample_libs ''https://node.example.org''
     \<lparr>wallet_privateKey = owner_key, wallet_address = owner_address\<rparr> = Inr sample_signature \<and>
   sign_deleteNodeRaw sample_libs
     \<lparr>wallet_privateKey = owner_key, wallet_address = owner_address\<rparr> = Inr sample_signature \<and>
   length ''de'' = 2 \<and> length ''abc'' = 3 \<and>
   getAddress sample_libs owner_address = Some owner_address \<and>
   web3_toHex sample_libs (toUpperCase ''de'') = Some ''0x4445'' \<and>
   web3_toHex sample_libs (toUpperCase ''abc'') = Some ''0x414243'' \<and>
   sign_setPartyRaw sample_libs ''0x4445'' ''0x414243'' [0] owner_address
     \<lparr>wallet_privateKey = owner_key, wallet_address = owner_address\<rparr> = Inr sample_signature \<and>
   sign_setPartyModulesRaw sample_libs [3] []
     \<lparr>wallet_privateKey = owner_key, wallet_address = owner_address\<rparr> = Inr sample_signature \<and>
   sign_deletePartyRaw sample_libs
     \<lparr>wallet_privateKey = owner_key, wallet_address = owner_address\<rparr> = Inr sample_signature \<and>
   wallet writer = spender_wallet \<and>
   owner_address \<noteq> spender_address"
  using raw_claimed_address_from_supplied_key [where env = sample_libs
      and tr = sample_transport and reg = writer and signer = owner_key
      and domain = "''https://node.example.org''" and d = "''https://node.example.org''"
      and w = spender_wallet and a = owner_address and a' = owner_address
      and v = 27 and r = "''0x01''" and s = "''0x02''"
      and countryCode = "''de''" and partyId = "''abc''" and roles = "[0]" and rs = "[0]"
      and operator = owner_address and op = owner_address and b = owner_address
      and c = "''0x4445''" and p = "''0x414243''"
      and sender = "[3]" and receiver = "[]" and ms = "[3]" and mr = "[]"
      and sg = sample_signature]
    run_setNodeRaw run_deleteNodeRaw run_setPartyRaw run_setPartyModulesRaw run_deletePartyRaw
    sample_computeAddress_owner owner_is_not_spender wallet_writer sample_signs
    sample_getAddress_owner upper_de sample_toHex
  by simp

subsection \<open>Upper-casing before hex-encoding\<close>









subsection \<open>Checks come before calls\<close>

text \<open>
  An outcome is \<open>unchecked\<close> when its error, if any, is not the error of a check. What
  follows a call on the contract must be unchecked for the method to fail fast.
\<close>

lemma fail_fast_sync:
  "(\<And>x. r = Inr x \<Longrightarrow> fail_fast (f x)) \<Longrightarrow> fail_fast (and_then (sync r) f)"
  by (cases r) (simp_all add: and_then_sync fail_fast_def)

lemma fail_fast_local:
  "snd m = [] \<Longrightarrow> (\<And>x. fst m = Inr x \<Longrightarrow> fail_fast (f x)) \<Longrightarrow> fail_fast (and_then m f)"
  by (cases m) (auto simp: and_then_def fail_fast_def split: sum.splits prod.splits)

lemma fail_fast_unchecked:
  "(\<And>e. fst m = Inl e \<Longrightarrow> \<not> validation_error e) \<Longrightarrow> fail_fast m"
  by (auto simp: fail_fast_def split: sum.splits)

lemma unchecked_and_then:
  "(\<And>e. fst m = Inl e \<Longrightarrow> \<not> validation_error e) \<Longrightarrow>
   (\<And>x e. fst (f x) = Inl e \<Longrightarrow> \<not> validation_error e) \<Longrightarrow>
     fst (and_then m f) = Inl e \<Longrightarrow> \<not> validation_error e"
  by (auto simp: fst_and_then split: sum.splits)

lemma unchecked_query: "fst (query c r) = Inl e \<Longrightarrow> \<not> validation_error e"
  by (auto simp: query_def split: sum.splits)

lemma unchecked_send: "fst (send tr reg c) = Inl e \<Longrightarrow> \<not> validation_error e"
  by (auto simp: send_def split: sum.splits)

lemma unchecked_wait: "fst (wait tr t) = Inl e \<Longrightarrow> \<not> validation_error e"
  by (auto simp: wait_def split: sum.splits)

lemma unchecked_ret: "fst (ret x) = Inl e \<Longrightarrow> \<not> validation_error e"
  by (simp add: ret_def)

lemma unchecked_toPartyDetails: "toPartyDetails env input = Inl e \<Longrightarrow> \<not> validation_error e"
  by (auto simp: toPartyDetails_def split: option.splits)

lemma unchecked_submit:
  "fst (and_then (send tr reg c) (\<lambda>t. and_then (wait tr t) (\<lambda>_. ret t))) = Inl e \<Longrightarrow>
     \<not> validation_error e"
  by (auto simp: fst_and_then send_def wait_def ret_def split: sum.splits)

lemma fail_fast_submit:
  "fail_fast (and_then (send tr reg c) (\<lambda>t. and_then (wait tr t) (\<lambda>_. ret t)))"
  by (rule fail_fast_unchecked) (rule unchecked_submit)

lemma snd_local [simp]:
  "snd (toHex env str) = []" "snd (new_Wallet env key) = []" "snd (new_URL env domain) = []"
  "snd (library r) = []"
  by (simp_all add: toHex_def new_Wallet_def new_URL_def library_def
        split: option.splits sum.splits)

lemma getAllNodes_loop_error:
  "getAllNodes_loop tr operators nodes = (Inl e, t) \<Longrightarrow> \<not> validation_error e"
  by (induction operators arbitrary: nodes t)
    (auto simp: ret_def query_def split: sum.splits prod.splits)

lemma unchecked_getAllNodes_loop:
  "fst (getAllNodes_loop tr operators nodes) = Inl e \<Longrightarrow> \<not> validation_error e"
  by (cases "getAllNodes_loop tr operators nodes") (auto dest: getAllNodes_loop_error)

lemma getAllParties_loop_error:
  "getAllParties_loop env tr addresses details = (Inl e, t) \<Longrightarrow> \<not> validation_error e"
  by (induction addresses arbitrary: details t)
    (auto simp: ret_def query_def dest: unchecked_toPartyDetails
      split: sum.splits prod.splits if_splits)

lemma unchecked_getAllParties_loop:
  "fst (getAllParties_loop env tr addresses details) = Inl e \<Longrightarrow> \<not> validation_error e"
  by (cases "getAllParties_loop env tr addresses details") (auto dest: getAllParties_loop_error)

lemma fail_fast_getNode: "fail_fast (getNode env tr operator)"
  unfolding getNode_def
  by (intro fail_fast_sync fail_fast_unchecked)
    (auto simp: fst_and_then query_def ret_def split: sum.splits)

lemma fail_fast_getAllNodes: "fail_fast (getAllNodes tr)"
  unfolding getAllNodes_def
  by (rule fail_fast_unchecked)
    (auto simp: fst_and_then query_def split: sum.splits dest: unchecked_getAllNodes_loop)

lemma fail_fast_getPartyByAddress: "fail_fast (getPartyByAddress env tr address)"
  using getPartyByAddress_error [of env tr address]
  by (intro fail_fast_unchecked) auto

lemma fail_fast_getPartyByOcpi: "fail_fast (getPartyByOcpi env tr countryCode partyId)"
  unfolding getPartyByOcpi_def
  by (intro fail_fast_sync fail_fast_local fail_fast_unchecked; simp?)
    (auto simp: fst_and_then and_then_sync query_def ret_def
      dest: unchecked_toPartyDetails split: sum.splits)

lemma fail_fast_getAllParties: "fail_fast (getAllParties env tr)"
  unfolding getAllParties_def
  by (rule fail_fast_unchecked)
    (auto simp: fst_and_then query_def split: sum.splits dest: unchecked_getAllParties_loop)

lemma fail_fast_setNode: "fail_fast (setNode env tr reg domain)"
  unfolding setNode_def by (intro fail_fast_sync fail_fast_local fail_fast_submit) simp

lemma fail_fast_setNodeRaw: "fail_fast (setNodeRaw env tr reg domain signer)"
  unfolding setNodeRaw_def by (intro fail_fast_sync fail_fast_local fail_fast_submit) simp_all

lemma fail_fast_deleteNode: "fail_fast (deleteNode tr reg)"
  unfolding deleteNode_def by (intro fail_fast_sync fail_fast_submit)

lemma fail_fast_deleteNodeRaw: "fail_fast (deleteNodeRaw env tr reg signer)"
  unfolding deleteNodeRaw_def by (intro fail_fast_sync fail_fast_local fail_fast_submit) simp_all

lemma fail_fast_setParty: "fail_fast (setParty env tr reg countryCode partyId roles operator)"
  unfolding setParty_def by (intro fail_fast_sync fail_fast_local fail_fast_submit) simp_all

lemma fail_fast_setPartyRaw:
  "fail_fast (setPartyRaw env tr reg countryCode partyId roles operator signer)"
  unfolding setPartyRaw_def by (intro fail_fast_sync fail_fast_local fail_fast_submit) simp_all

lemma fail_fast_setPartyModules: "fail_fast (setPartyModules tr reg sender receiver)"
  unfolding setPartyModules_def by (intro fail_fast_sync fail_fast_submit)

lemma fail_fast_setPartyModulesRaw:
  "fail_fast (setPartyModulesRaw env tr reg sender receiver signer)"
  unfolding setPartyModulesRaw_def
  by (intro fail_fast_sync fail_fast_local fail_fast_submit) simp_all

lemma fail_fast_deleteParty: "fail_fast (deleteParty tr reg)"
  unfolding deleteParty_def by (intro fail_fast_sync fail_fast_submit)

lemma fail_fast_deletePartyRaw: "fail_fast (deletePartyRaw env tr reg signer)"
  unfolding deletePartyRaw_def by (intro fail_fast_sync fail_fast_local fail_fast_submit) simp_all

text \<open>
  C5: every public method fails fast: when it ends with the error of
  \<^verbatim>\<open>verifyWritable\<close>, \<^verbatim>\<open>verifyStringLen\<close> or \<^verbatim>\<open>verifyAddress\<close>, it has made no call
  on the contract (no read, no transaction, no wait), so nothing was changed there.
\<close>

theorem checks_precede_every_call:
  "fail_fast (getNode env tr operator) \<and>
   fail_fast (getAllNodes tr) \<and>
   fail_fast (getPartyByAddress env tr address) \<and>
   fail_fast (getPartyByOcpi env tr countryCode partyId) \<and>
   fail_fast (getAllParties env tr) \<and>
   fail_fast (setNode env tr reg domain) \<and>
   fail_fast (setNodeRaw env tr reg domain signer) \<and>
   fail_fast (deleteNode tr reg) \<and>
   fail_fast (deleteNodeRaw env tr reg signer) \<and>
   fail_fast (setParty env tr reg countryCode partyId roles operator) \<and>
   fail_fast (setPartyRaw env tr reg countryCode partyId roles operator signer) \<and>
   fail_fast (setPartyModules tr reg sender receiver) \<and>
   fail_fast (setPartyModulesRaw env tr reg sender receiver signer) \<and>
   fail_fast (deleteParty tr reg) \<and>
   fail_fast (deletePartyRaw env tr reg signer)"
  by (intro conjI fail_fast_getNode fail_fast_getAllNodes fail_fast_getPartyByAddress
      fail_fast_getPartyByOcpi fail_fast_getAllParties fail_fast_setNode fail_fast_setNodeRaw
      fail_fast_deleteNode fail_fast_deleteNodeRaw fail_fast_setParty fail_fast_setPartyRaw
      fail_fast_setPartyModules fail_fast_setPartyModulesRaw fail_fast_deleteParty
      fail_fast_deletePartyRaw)

lemma fails_getNode:
  "fst (getNode sample_libs sample_transport ''0x1234'') = Inl (InvalidAddress ''0x1234'')"
  by code_simp

lemma fails_getPartyByOcpi:
  "fst (getPartyByOcpi sample_libs sample_transport ''de'' ''abcd'') =
     Inl (InvalidStringLength 3 ''abcd'' 4)"
  by code_simp

lemma fails_setParty:
  "fst (setParty sample_libs sample_transport writer ''de'' ''abcd'' [0] ''0x1234'') =
     Inl (InvalidStringLength 3 ''abcd'' 4)"
  by code_simp

lemma fails_setPartyRaw:
  "fst (setPartyRaw sample_libs sample_transport writer ''de'' ''abc'' [0] ''0x1234''
          owner_key) = Inl (InvalidAddress ''0x1234'')"
  by code_simp

lemma fails_deletePartyRaw:
  "fst (deletePartyRaw sample_libs sample_transport reader owner_key) = Inl NoSigner"
  by code_simp

theorem checks_precede_every_call_witness:
  "validation_error (InvalidAddress ''0x1234'') \<and>
   validation_error (InvalidStringLength 3 ''abcd'' 4) \<and>
   validation_error NoSigner \<and>
   getNode sample_libs sample_transport ''0x1234'' = (Inl (InvalidAddress ''0x1234''), []) \<and>
   getPartyByOcpi sample_libs sample_transport ''de'' ''abcd'' =
     (Inl (InvalidStringLength 3 ''abcd'' 4), []) \<and>
   setParty sample_libs sample_transport writer ''de'' ''abcd'' [0] ''0x1234'' =
     (Inl (InvalidStringLength 3 ''abcd'' 4), []) \<and>
   setPartyRaw sample_libs sample_transport writer ''de'' ''abc'' [0] ''0x1234'' owner_key =
     (Inl (InvalidAddress ''0x1234''), []) \<and>
   deletePartyRaw sample_libs sample_transport reader owner_key = (Inl NoSigner, [])"
  using checks_precede_every_call [where env = sample_libs and tr = sample_transport
      and reg = writer and operator = "''0x1234''" and countryCode = "''de''"
      and partyId = "''abcd''" and roles = "[0]"]
    checks_precede_every_call [where env = sample_libs and tr = sample_transport
      and reg = writer and operator = "''0x1234''" and countryCode = "''de''"
      and partyId = "''abc''" and roles = "[0]" and signer = owner_key]
    checks_precede_every_call [where env = sample_libs and tr = sample_transport
      and reg = reader and signer = owner_key]
    fails_getNode fails_getPartyByOcpi fails_setParty fails_setPartyRaw fails_deletePartyRaw
  by (simp add: fail_fast_def prod_eq_iff)

subsection \<open>The zero operator address\<close>


















subsection \<open>What the raw node listing submits\<close>

text \<open>
  C2: a raw node listing is to sign and submit the origin of the url only, as
  \<^verbatim>\<open>setNode\<close> does through \<^verbatim>\<open>new URL(domain).origin\<close>. \<^verbatim>\<open>setNodeRaw\<close> has no such
  step: for \<^verbatim>\<open>https://node.example.org/path?x=1\<close> it hands the whole string to
  \<^verbatim>\<open>sign.setNodeRaw\<close> and to the contract, path and query included, where
  \<^verbatim>\<open>setNode\<close> submits \<^verbatim>\<open>https://node.example.org\<close>.
\<close>

theorem setNodeRaw_submits_domain_as_given:
  "url_origin sample_libs ''https://node.example.org/path?x=1'' =
     Some ''https://node.example.org'' \<and>
   setNode sample_libs sample_transport writer ''https://node.example.org/path?x=1'' =
     (Inr ''0x7e57'',
      [Send spender_wallet (C_setNode ''https://node.example.org''), Wait ''0x7e57'']) \<and>
   setNodeRaw sample_libs sample_transport writer ''https://node.example.org/path?x=1''
       owner_key =
     (Inr ''0x7e57'',
      [Send spender_wallet
         (C_setNodeRaw owner_address ''https://node.example.org/path?x=1'' 27 ''0x01'' ''0x02''),
       Wait ''0x7e57''])"
  by code_simp

subsection \<open>Which addresses are checked\<close>


end
